theory Spec2Isabelle
  imports Complex_Main
begin

section \<open>Backend server (src/backend/server.js)\<close>

subsection \<open>JavaScript values, errors and promises\<close>

text \<open>
  Errors that the modelled code can meet: a failed \<^verbatim>\<open>fs.readFile\<close> (the promise of
  fs-promise rejects), a \<^verbatim>\<open>JSON.parse\<close> that throws, and an exception thrown by the
  search module (\<^verbatim>\<open>../common/search\<close>), whose code is not part of the modelled files.
\<close>

datatype jserror = ReadFailed string | SyntaxError string | Thrown string

text \<open>
  A JavaScript number as far as \<^verbatim>\<open>parseInt\<close> produces one: NaN, an integer that a double
  holds exactly, or an infinity.
\<close>

datatype jsnum = NaN | Num int | PosInfinity | NegInfinity

text \<open>
  A promise is modelled by what it settles to and by the tick at which it settles. The
  tick only decides which rejection \<^verbatim>\<open>Promise.all\<close> reports when several inputs reject.
\<close>

datatype 'a settled = Fulfilled 'a | Rejected jserror

type_synonym 'a promise = "nat \<times> 'a settled"

text \<open>\<^verbatim>\<open>p.then(f)\<close>: a callback that throws rejects the derived promise.\<close>

definition then_promise :: "'a promise \<Rightarrow> ('a \<Rightarrow> jserror + 'b) \<Rightarrow> 'b promise" where
  "then_promise p f =
     (case snd p of
        Fulfilled v \<Rightarrow> (fst p, (case f v of Inl e \<Rightarrow> Rejected e | Inr w \<Rightarrow> Fulfilled w))
      | Rejected e \<Rightarrow> (fst p, Rejected e))"

text \<open>The earliest rejection among the inputs (the earlier array position wins a tie).\<close>

fun first_rejected :: "'a promise list \<Rightarrow> (nat \<times> jserror) option" where
  "first_rejected [] = None"
| "first_rejected ((t, Fulfilled v) # ps) = first_rejected ps"
| "first_rejected ((t, Rejected e) # ps) =
     (case first_rejected ps of
        None \<Rightarrow> Some (t, e)
      | Some (t', e') \<Rightarrow> if t' < t then Some (t', e') else Some (t, e))"

fun fulfilled_values :: "'a promise list \<Rightarrow> 'a list" where
  "fulfilled_values [] = []"
| "fulfilled_values ((t, Fulfilled v) # ps) = v # fulfilled_values ps"
| "fulfilled_values ((t, Rejected e) # ps) = fulfilled_values ps"

text \<open>
  \<^verbatim>\<open>Promise.all(ps)\<close>: rejects with the first rejection to happen, otherwise fulfils with
  the array of values once the last input has fulfilled.
\<close>

definition Promise_all :: "'a promise list \<Rightarrow> 'a list promise" where
  "Promise_all ps =
     (case first_rejected ps of
        Some (t, e) \<Rightarrow> (t, Rejected e)
      | None \<Rightarrow> (fold max (map fst ps) 0, Fulfilled (fulfilled_values ps)))"

subsection \<open>Query-string parameters\<close>

text \<open>
  What \<^verbatim>\<open>req.query.x\<close> can hold under Express's query parser: nothing, a string, an
  array or a nested object.
\<close>

datatype qparam =
    QUndefined
  | QString string
  | QArray "qparam list"
  | QObject "(string \<times> qparam) list"

text \<open>JavaScript truthiness: \<^verbatim>\<open>undefined\<close> and the empty string are falsy.\<close>

fun truthy :: "qparam \<Rightarrow> bool" where
  "truthy QUndefined = False"
| "truthy (QString s) = (s \<noteq> [])"
| "truthy (QArray xs) = True"
| "truthy (QObject kvs) = True"

text \<open>\<^verbatim>\<open>typeof v === 'string'\<close>.\<close>

fun typeof_string :: "qparam \<Rightarrow> bool" where
  "typeof_string (QString s) = True"
| "typeof_string _ = False"

text \<open>\<^verbatim>\<open>v.length\<close> of a string or an array (only ever read of a string here).\<close>

fun js_length :: "qparam \<Rightarrow> nat" where
  "js_length (QString s) = length s"
| "js_length (QArray xs) = length xs"
| "js_length _ = 0"

fun join_comma :: "string list \<Rightarrow> string" where
  "join_comma [] = []"
| "join_comma [s] = s"
| "join_comma (s # t # ss) = s @ '','' @ join_comma (t # ss)"

text \<open>\<^verbatim>\<open>String(v)\<close>: an array joins its elements with commas, \<^verbatim>\<open>undefined\<close> elements as empty.\<close>

fun ToString :: "qparam \<Rightarrow> string" where
  "ToString QUndefined = ''undefined''"
| "ToString (QString s) = s"
| "ToString (QArray xs) =
     join_comma (map (\<lambda>x. if x = QUndefined then [] else ToString x) xs)"
| "ToString (QObject kvs) = ''[object Object]''"

subsection \<open>parseInt\<close>

text \<open>
  A character stands for a UTF-16 code unit below 256. The white space that \<^verbatim>\<open>parseInt\<close>
  skips is, in this range, tab, line feed, vertical tab, form feed, carriage return, space
  and the no-break space.
\<close>

definition is_space :: "char \<Rightarrow> bool" where
  "is_space c =
     (c \<in> set [CHR '' '', CHR 0x09, CHR 0x0A, CHR 0x0B, CHR 0x0C, CHR 0x0D, CHR 0xA0])"

text \<open>The value of a digit in radix 16 or below, if the character is one.\<close>

definition digit_value :: "char \<Rightarrow> nat option" where
  "digit_value c =
     (let n = of_char c :: nat in
      if 48 \<le> n \<and> n \<le> 57 then Some (n - 48)
      else if 97 \<le> n \<and> n \<le> 102 then Some (n - 87)
      else if 65 \<le> n \<and> n \<le> 70 then Some (n - 55)
      else None)"

text \<open>The longest prefix of digits of the radix, read left to right.\<close>

fun take_digits :: "nat \<Rightarrow> string \<Rightarrow> nat list" where
  "take_digits radix [] = []"
| "take_digits radix (c # cs) =
     (case digit_value c of
        None \<Rightarrow> []
      | Some d \<Rightarrow> if d < radix then d # take_digits radix cs else [])"

definition digits_value :: "nat \<Rightarrow> nat list \<Rightarrow> nat" where
  "digits_value radix ds = foldl (\<lambda>acc d. acc * radix + d) 0 ds"

text \<open>The number of binary digits of a natural number.\<close>

fun bit_length :: "nat \<Rightarrow> nat" where
  "bit_length n = (if n = 0 then 0 else Suc (bit_length (n div 2)))"

text \<open>
  The double nearest to an integer of the given sign and magnitude: exact below \<open>2^53\<close>,
  otherwise rounded to 53 binary digits, ties to the even one, and an infinity from
  \<open>2^1024\<close> on.
\<close>

definition to_double :: "bool \<Rightarrow> nat \<Rightarrow> jsnum" where
  "to_double neg m =
     (if m < 9007199254740992 then Num (if neg then - int m else int m)
      else
        (let e = bit_length m - 53;
             q = m div 2 ^ e;
             r = m mod 2 ^ e;
             half = 2 ^ (e - 1);
             q1 = (if half < r \<or> (r = half \<and> odd q) then Suc q else q);
             v = q1 * 2 ^ e
         in if 2 ^ 1024 \<le> v then (if neg then NegInfinity else PosInfinity)
            else Num (if neg then - int v else int v)))"

text \<open>
  \<^verbatim>\<open>parseInt(s)\<close> with no radix argument: leading white space is skipped, a sign is read, a
  \<^verbatim>\<open>0x\<close> prefix selects radix 16, the longest digit prefix is the value, no digit is NaN.
  The result is the double nearest to the integer read; negative zero is not told from
  zero. (Beyond 20 hexadecimal digits an engine may round the digits first; the integer is
  taken exactly here.)
\<close>

definition parseInt_string :: "string \<Rightarrow> jsnum" where
  "parseInt_string s =
     (let s1 = dropWhile is_space s;
          neg = (s1 \<noteq> [] \<and> hd s1 = CHR ''-'');
          s2 = (if s1 \<noteq> [] \<and> (hd s1 = CHR ''-'' \<or> hd s1 = CHR ''+'') then tl s1 else s1);
          hex = (take 2 s2 = ''0x'' \<or> take 2 s2 = ''0X'');
          radix = (if hex then 16 else 10);
          s3 = (if hex then drop 2 s2 else s2);
          ds = take_digits radix s3
      in if ds = [] then NaN else to_double neg (digits_value radix ds))"

definition parseInt :: "qparam \<Rightarrow> jsnum" where
  "parseInt v = parseInt_string (ToString v)"

subsection \<open>The environment of the server\<close>

text \<open>
  What the server code uses and does not define: the flags and the \<^verbatim>\<open>isNumeric\<close> test
  of \<^verbatim>\<open>./macros\<close>, the file system, \<^verbatim>\<open>JSON.parse\<close> and \<^verbatim>\<open>JSON.stringify\<close>, and the search
  module (\<^verbatim>\<open>search.create\<close>, which may return a falsy value, and \<^verbatim>\<open>index.search\<close>). They
  are parameters: \<open>'j\<close> is a parsed dump, \<open>'i\<close> an index, \<open>'r\<close> a result record. The
  last parameter is the Content-Security-Policy that Express's final handler puts on the
  404 and 500 responses it writes itself (\<^verbatim>\<open>default-src 'self'\<close> or \<^verbatim>\<open>default-src 'none'\<close>, by
  version).
\<close>

record ('j, 'i, 'r) env =
  macros_PROD :: bool
  macros_DEV :: bool
  isNumeric :: "qparam \<Rightarrow> bool"
  fs_readFile :: "string \<Rightarrow> nat \<times> (jserror + string)"
  JSON_parse :: "string \<Rightarrow> jserror + 'j"
  search_create :: "'j list \<Rightarrow> jserror + 'i option"
  index_search :: "'i \<Rightarrow> string \<Rightarrow> jsnum \<Rightarrow> jsnum \<Rightarrow> jserror + 'r list"
  JSON_stringify :: "'r list \<Rightarrow> string"
  finalhandler_policy :: string

text \<open>
  The calls into the file system, the JSON parser and the search module. The entries of
  one build are logged in the order of the array of dumps, whatever the order in time.
\<close>

datatype call =
    FsReadFile string
  | JSONParse string
  | SearchCreate
  | IndexSearch string jsnum jsnum

text \<open>
  The module state: the variable \<^verbatim>\<open>searchPromise\<close> (\<open>None\<close> is \<^verbatim>\<open>null\<close>), the log of calls,
  and the rejections of promises that nobody handles.
\<close>

record 'i server_state =
  searchPromise :: "'i option promise option"
  calls :: "call list"
  unhandled :: "jserror list"

definition initial_state :: "'i server_state" where
  "initial_state = \<lparr>searchPromise = None, calls = [], unhandled = []\<rparr>"

subsection \<open>getSearch\<close>

definition termDump_path :: string where
  "termDump_path = ''./public/data/getTermDump/neu.edu/201810.json''"

definition searchIndex_path :: string where
  "searchIndex_path = ''./public/data/getSearchIndex/neu.edu/201810.json''"

definition employeeMap_path :: string where
  "employeeMap_path = ''./public/data/employeeMap.json''"

definition employeesSearchIndex_path :: string where
  "employeesSearchIndex_path = ''./public/data/employeesSearchIndex.json''"

definition dump_paths :: "string list" where
  "dump_paths =
     [termDump_path, searchIndex_path, employeeMap_path, employeesSearchIndex_path]"

text \<open>\<^verbatim>\<open>fs.readFile(path)\<close> as a promise of the file's contents.\<close>

definition readFile_promise :: "('j, 'i, 'r) env \<Rightarrow> string \<Rightarrow> string promise" where
  "readFile_promise env path =
     (case fs_readFile env path of
        (t, Inl e) \<Rightarrow> (t, Rejected e)
      | (t, Inr body) \<Rightarrow> (t, Fulfilled body))"

text \<open>\<^verbatim>\<open>fs.readFile(path).then((body) => JSON.parse(body))\<close>.\<close>

definition dump_promise :: "('j, 'i, 'r) env \<Rightarrow> string \<Rightarrow> 'j promise" where
  "dump_promise env path = then_promise (readFile_promise env path) (JSON_parse env)"

text \<open>
  The files whose read succeeds are parsed. The reads start during the call of
  \<^verbatim>\<open>getSearch\<close>; the parses and \<^verbatim>\<open>search.create\<close> run when the promises settle, and are
  logged with the build that causes them.
\<close>

definition read_ok :: "('j, 'i, 'r) env \<Rightarrow> string \<Rightarrow> bool" where
  "read_ok env path = (case snd (fs_readFile env path) of Inl e \<Rightarrow> False | Inr body \<Rightarrow> True)"

definition parse_calls :: "('j, 'i, 'r) env \<Rightarrow> string list \<Rightarrow> call list" where
  "parse_calls env paths = map JSONParse (filter (read_ok env) paths)"

text \<open>
  The body of the \<^verbatim>\<open>try\<close> block: building the chained promise throws nothing, whatever
  the four inputs settle to, so its synchronous result is always \<open>Inr\<close>.
\<close>

definition build_promise ::
  "('j, 'i, 'r) env \<Rightarrow> 'j promise list \<Rightarrow> jserror + 'i option promise" where
  "build_promise env ps = Inr (then_promise (Promise_all ps) (search_create env))"

definition build_calls :: "('j, 'i, 'r) env \<Rightarrow> call list" where
  "build_calls env =
     map FsReadFile dump_paths @ parse_calls env dump_paths @
     (if first_rejected (map (dump_promise env) dump_paths) = None then [SearchCreate] else [])"

text \<open>
  \<^verbatim>\<open>getSearch()\<close>: the promise the caller awaits, and the new state. The function has no
  \<^verbatim>\<open>await\<close>, so a call runs to its end before any other code does.
\<close>

definition getSearch ::
  "('j, 'i, 'r) env \<Rightarrow> 'i server_state \<Rightarrow> 'i option promise \<times> 'i server_state" where
  "getSearch env st =
     (case searchPromise st of
        Some p \<Rightarrow> (p, st)
      | None \<Rightarrow>
          (let ps = map (dump_promise env) dump_paths;
               st1 = st\<lparr>calls := calls st @ build_calls env\<rparr>
           in case build_promise env ps of
                Inl e \<Rightarrow> ((0, Fulfilled None), st1)
              | Inr p \<Rightarrow> (p, st1\<lparr>searchPromise := Some p\<rparr>)))"

text \<open>
  The call at module load, \<^verbatim>\<open>getSearch();\<close>: its promise is dropped, so a rejection of it
  is handled by nobody.
\<close>

definition startup :: "('j, 'i, 'r) env \<Rightarrow> 'i server_state" where
  "startup env =
     (case getSearch env initial_state of
        ((t, Rejected e), st) \<Rightarrow> st\<lparr>unhandled := unhandled st @ [e]\<rparr>
      | ((t, Fulfilled v), st) \<Rightarrow> st)"

text \<open>Any number of calls of \<^verbatim>\<open>getSearch\<close> in a row, with the promises they return.\<close>

fun getSearch_calls ::
  "('j, 'i, 'r) env \<Rightarrow> nat \<Rightarrow> 'i server_state \<Rightarrow> 'i option promise list \<times> 'i server_state" where
  "getSearch_calls env 0 st = ([], st)"
| "getSearch_calls env (Suc n) st =
     (case getSearch env st of
        (p, st1) \<Rightarrow> (case getSearch_calls env n st1 of (ps, st2) \<Rightarrow> (p # ps, st2)))"

text \<open>The promise of the one build: what the first call stores in \<^verbatim>\<open>searchPromise\<close>.\<close>

definition search_build :: "('j, 'i, 'r) env \<Rightarrow> 'i option promise" where
  "search_build env =
     then_promise (Promise_all (map (dump_promise env) dump_paths)) (search_create env)"

fun is_read :: "call \<Rightarrow> bool" where
  "is_read (FsReadFile path) = True"
| "is_read _ = False"

subsection \<open>Requests and responses\<close>

text \<open>
  The handler that Express's router selects for a request. The matching itself is
  Express's; the order of the handlers is the order of registration in server.js. A
  request that no handler of server.js takes (any request that is not a GET, for one) has
  \<open>NoRoute\<close>.
\<close>

datatype route =
    SearchRoute
  | WebpackAsset
  | StaticFile
  | SwJs
  | GoogleVerification
  | StarRoute
  | NoRoute

record request =
  protocol :: string
  x_forwarded_proto :: "string option"
  host :: "string option"
  originalUrl :: string
  route :: route
  query_query :: qparam
  query_minIndex :: qparam
  query_maxIndex :: qparam
  fresh :: "string \<Rightarrow> bool"

text \<open>
  \<open>fresh req text\<close> is \<^verbatim>\<open>req.fresh\<close> as \<^verbatim>\<open>res.send(text)\<close> reads it once it has set the ETag
  of the text: true only for a conditional GET whose validators match that ETag.
\<close>

text \<open>
  The body: a text given to \<^verbatim>\<open>res.send\<close>, a text written with \<^verbatim>\<open>res.write\<close>, a file given
  to \<^verbatim>\<open>res.sendFile\<close>, a body that a library makes, or the body of a redirect.
\<close>

datatype payload =
    NoBody
  | Text string
  | Written string
  | FileAt string
  | LibraryBody
  | RedirectTo string

record response =
  status :: nat
  headers :: "string \<rightharpoonup> string"
  body :: payload

text \<open>A fresh response: status 200 until the code sets another, no header, no body.\<close>

definition new_response :: response where
  "new_response = \<lparr>status = 200, headers = Map.empty, body = NoBody\<rparr>"

definition setHeader :: "response \<Rightarrow> string \<Rightarrow> string \<Rightarrow> response" where
  "setHeader res name val = res\<lparr>headers := (headers res)(name \<mapsto> val)\<rparr>"

text \<open>
  \<^verbatim>\<open>res.send(text)\<close> as the handler calls it: the text is put on the response, whose
  status and headers stay as they are. The last step of \<^verbatim>\<open>res.send\<close>, the answer to a
  fresh conditional request, is in \<open>http_response\<close> below.
\<close>

definition send :: "response \<Rightarrow> string \<Rightarrow> response" where
  "send res text = res\<lparr>body := Text text\<rparr>"

text \<open>\<^verbatim>\<open>res.write(text); res.end()\<close>.\<close>

definition write_end :: "response \<Rightarrow> string \<Rightarrow> response" where
  "write_end res text = res\<lparr>body := Written text\<rparr>"

definition sendFile :: "response \<Rightarrow> string \<Rightarrow> response" where
  "sendFile res path = res\<lparr>body := FileAt path\<rparr>"

text \<open>\<^verbatim>\<open>res.redirect(url)\<close>: status 302 and a Location header.\<close>

definition redirect :: "response \<Rightarrow> string \<Rightarrow> response" where
  "redirect res url =
     (setHeader res ''Location'' url)\<lparr>status := 302, body := RedirectTo url\<rparr>"

text \<open>
  How a handler ends: it sends the response, or it fails and Express's error handling
  takes over (\<^verbatim>\<open>wrap\<close> passes the rejection of an async handler to \<^verbatim>\<open>next\<close>), or no
  handler of server.js takes the request.
\<close>

datatype outcome =
    Sent response
  | NextError jserror response
  | Unrouted response

subsection \<open>The middleware\<close>

text \<open>The value of the Content-Security-Policy header, with its quoted keyword.\<close>

definition frame_ancestors_none :: string where
  "frame_ancestors_none = ''frame-ancestors '' @ [CHR 0x27] @ ''none'' @ [CHR 0x27]"

text \<open>The first \<^verbatim>\<open>app.use\<close>: the security headers and the cache policy.\<close>

definition security_headers :: "('j, 'i, 'r) env \<Rightarrow> response \<Rightarrow> response" where
  "security_headers env res =
     (let r1 = setHeader res ''X-Frame-Options'' ''DENY'';
          r2 = setHeader r1 ''Content-Security-Policy'' frame_ancestors_none;
          r3 = setHeader r2 ''X-XSS-Protection'' ''1; mode=block'';
          r4 = setHeader r3 ''X-Content-Type-Options'' ''nosniff''
      in if macros_PROD env then setHeader r4 ''Cache-Control'' ''public, max-age=86400''
         else setHeader r4 ''Cache-Control'' ''no-cache'')"

text \<open>\<^verbatim>\<open>req.headers['x-forwarded-proto'] && req.headers['x-forwarded-proto'] === 'https'\<close>.\<close>

definition forwarded_https :: "request \<Rightarrow> bool" where
  "forwarded_https req =
     (case x_forwarded_proto req of
        None \<Rightarrow> False
      | Some v \<Rightarrow> v \<noteq> [] \<and> v = ''https'')"

text \<open>\<^verbatim>\<open>'https://' + req.get('host') + req.originalUrl\<close>.\<close>

definition redirect_url :: "request \<Rightarrow> string" where
  "redirect_url req =
     ''https://'' @ (case host req of None \<Rightarrow> ''undefined'' | Some h \<Rightarrow> h) @ originalUrl req"

text \<open>The second \<^verbatim>\<open>app.use\<close>: \<open>None\<close> is \<^verbatim>\<open>next()\<close>, \<open>Some r\<close> the redirect it sends.\<close>

definition https_redirect ::
  "('j, 'i, 'r) env \<Rightarrow> request \<Rightarrow> response \<Rightarrow> response option" where
  "https_redirect env req res =
     (if protocol req = ''https'' then None
      else if forwarded_https req then None
      else if macros_DEV env then None
      else Some (redirect (setHeader res ''Cache-Control'' ''public, max-age=5256000'')
                   (redirect_url req)))"

subsection \<open>The handler of GET /search\<close>

text \<open>
  The handler runs up to its one \<^verbatim>\<open>await\<close>, and goes on when the promise of
  \<^verbatim>\<open>getSearch\<close> has settled: a rejection is thrown at the \<^verbatim>\<open>await\<close> and rejects the
  handler. Requests that interleave at the \<^verbatim>\<open>await\<close> only append to the log of calls, so
  the handler is modelled as one step. Console output is not modelled.
\<close>

definition search_handler ::
  "('j, 'i, 'r) env \<Rightarrow> request \<Rightarrow> response \<Rightarrow> 'i server_state \<Rightarrow> outcome \<times> 'i server_state" where
  "search_handler env req res st =
     (if \<not> truthy (query_query req) \<or> \<not> typeof_string (query_query req)
         \<or> 500 < js_length (query_query req)
      then (Sent (send res ''Need query param.''), st)
      else if \<not> isNumeric env (query_minIndex req) \<or> \<not> isNumeric env (query_maxIndex req)
      then (Sent (send res ''Max and Min index must be numbers.''), st)
      else
        (let minIndex = (if truthy (query_minIndex req)
                         then parseInt (query_minIndex req) else Num 0);
             maxIndex = (if truthy (query_maxIndex req)
                         then parseInt (query_maxIndex req) else Num 10)
         in case getSearch env st of
              (p, st1) \<Rightarrow>
                (case snd p of
                   Rejected e \<Rightarrow> (NextError e res, st1)
                 | Fulfilled None \<Rightarrow>
                     (Sent (send (setHeader res ''Cache-Control'' ''no-cache, no-store'')
                              ''Could not start backend. No data found.''), st1)
                 | Fulfilled (Some index) \<Rightarrow>
                     (let q = ToString (query_query req);
                          st2 = st1\<lparr>calls := calls st1 @ [IndexSearch q minIndex maxIndex]\<rparr>
                      in case index_search env index q minIndex maxIndex of
                           Inl e \<Rightarrow> (NextError e res, st2)
                         | Inr results \<Rightarrow>
                             (Sent (send res (JSON_stringify env results)), st2)))))"

subsection \<open>The other routes and the whole application\<close>

text \<open>
  The handlers after \<^verbatim>\<open>/search\<close>, in the order of registration. The webpack middleware
  exists in DEV only. For the routes that a library serves (webpack, \<^verbatim>\<open>express.static\<close>,
  \<^verbatim>\<open>res.sendFile\<close>) only what server.js sets itself is modelled.
\<close>

definition other_routes :: "('j, 'i, 'r) env \<Rightarrow> request \<Rightarrow> response \<Rightarrow> outcome" where
  "other_routes env req res =
     (if macros_DEV env \<and> route req = WebpackAsset then Sent (res\<lparr>body := LibraryBody\<rparr>)
      else if route req = StaticFile then Sent (res\<lparr>body := LibraryBody\<rparr>)
      else if route req = SwJs then Sent (sendFile res ''frontend/sw.js'')
      else if route req = GoogleVerification
      then Sent (write_end res ''google-site-verification: google840b636639b40c3c.html'')
      else if route req = StarRoute
      then (let r1 = setHeader res ''Content-Type'' ''text/html; charset=UTF-8''
            in if macros_PROD env then Sent (sendFile r1 ''public/index.html'')
               else if macros_DEV env then Sent (r1\<lparr>body := LibraryBody\<rparr>)
               else NextError (Thrown ''TypeError'') r1)
      else Unrouted res)"

text \<open>
  One request through the application: the two middlewares, then the routes. The
  \<^verbatim>\<open>compress()\<close> middleware only encodes the body and is left out. Header names are
  compared as written; server.js writes each name in one spelling.
\<close>

definition app ::
  "('j, 'i, 'r) env \<Rightarrow> request \<Rightarrow> 'i server_state \<Rightarrow> outcome \<times> 'i server_state" where
  "app env req st =
     (let res = security_headers env new_response
      in case https_redirect env req res of
           Some r \<Rightarrow> (Sent r, st)
         | None \<Rightarrow>
             if route req = SearchRoute then search_handler env req res st
             else (other_routes env req res, st))"

text \<open>The server after start-up, serving a list of requests one after the other.\<close>

fun serve ::
  "('j, 'i, 'r) env \<Rightarrow> request list \<Rightarrow> 'i server_state \<Rightarrow> outcome list \<times> 'i server_state" where
  "serve env [] st = ([], st)"
| "serve env (req # reqs) st =
     (case app env req st of
        (out, st1) \<Rightarrow> (case serve env reqs st1 of (outs, st2) \<Rightarrow> (out # outs, st2)))"

subsection \<open>The response on the wire\<close>

text \<open>
  Express's final handler, which writes the response when a handler failed or when no
  handler took the request: it sets the status, its own Content-Security-Policy,
  X-Content-Type-Options and Content-Type, and leaves the other headers that were set.
\<close>

definition finalhandler :: "('j, 'i, 'r) env \<Rightarrow> nat \<Rightarrow> response \<Rightarrow> response" where
  "finalhandler env code res =
     (setHeader
        (setHeader
           (setHeader res ''Content-Security-Policy'' (finalhandler_policy env))
           ''X-Content-Type-Options'' ''nosniff'')
        ''Content-Type'' ''text/html; charset=utf-8'')\<lparr>status := code, body := LibraryBody\<rparr>"

text \<open>
  The status of the answer to an error that carries no status itself (a failed read, a
  thrown exception): the status of the response if that is an error status, else 500.
\<close>

definition error_status :: "response \<Rightarrow> nat" where
  "error_status res = (if 400 \<le> status res \<and> status res \<le> 599 then status res else 500)"

text \<open>
  The HTTP response of an outcome. A text given to \<^verbatim>\<open>res.send\<close> is answered with 304 and
  no body when the request is fresh and the status is 2xx or 304. A failed handler is
  answered by the final handler with an error status, an unrouted request with 404.
  Responses that a library serves may be revalidated by the library as well; that is not
  modelled.
\<close>

definition http_response :: "('j, 'i, 'r) env \<Rightarrow> request \<Rightarrow> outcome \<Rightarrow> response" where
  "http_response env req out =
     (case out of
        Sent r \<Rightarrow>
          (case body r of
             Text text \<Rightarrow>
               if fresh req text \<and> ((200 \<le> status r \<and> status r < 300) \<or> status r = 304)
               then r\<lparr>status := 304, body := NoBody\<rparr>
               else r
           | _ \<Rightarrow> r)
      | NextError e r \<Rightarrow> finalhandler env (error_status r) r
      | Unrouted r \<Rightarrow> finalhandler env 404 r)"



subsection \<open>A concrete environment\<close>

text \<open>
  An instance of the parameters, to run the model on concrete requests. The numeric test
  accepts exactly the decimal integers, with or without a minus sign; the dumps are kept
  as their text, the index is the list of the four dumps, a search returns the query. The
  example request is an https GET of \<^verbatim>\<open>/search\<close> with no validator, so it is never fresh.
\<close>

definition is_decimal_digit :: "char \<Rightarrow> bool" where
  "is_decimal_digit c = (48 \<le> (of_char c :: nat) \<and> (of_char c :: nat) \<le> 57)"

fun isNumeric_decimal :: "qparam \<Rightarrow> bool" where
  "isNumeric_decimal (QString s) =
     (let t = (if s \<noteq> [] \<and> hd s = CHR ''-'' then tl s else s)
      in t \<noteq> [] \<and> list_all is_decimal_digit t)"
| "isNumeric_decimal _ = False"

definition default_src_none :: string where
  "default_src_none = ''default-src '' @ [CHR 0x27] @ ''none'' @ [CHR 0x27]"

definition missing_files :: "string \<Rightarrow> nat \<times> (jserror + string)" where
  "missing_files path = (1, Inl (ReadFailed path))"

definition present_files :: "string \<Rightarrow> nat \<times> (jserror + string)" where
  "present_files path = (1, Inr ''{}'')"

definition example_env ::
  "bool \<Rightarrow> (string \<Rightarrow> nat \<times> (jserror + string)) \<Rightarrow> (string, string list, string) env" where
  "example_env is_prod files =
     \<lparr>macros_PROD = is_prod, macros_DEV = (\<not> is_prod), isNumeric = isNumeric_decimal,
      fs_readFile = files, JSON_parse = Inr,
      search_create = (\<lambda>dumps. Inr (Some dumps)),
      index_search = (\<lambda>index q a b. Inr [q]),
      JSON_stringify = (\<lambda>results. ''['' @ join_comma results @ '']''),
      finalhandler_policy = default_src_none\<rparr>"

definition example_request :: "string \<Rightarrow> string \<Rightarrow> string \<Rightarrow> request" where
  "example_request q lo hi =
     \<lparr>protocol = ''https'', x_forwarded_proto = None, host = Some ''searchneu.com'',
      originalUrl = ''/search'', route = SearchRoute,
      query_query = QString q, query_minIndex = QString lo, query_maxIndex = QString hi,
      fresh = (\<lambda>text. False)\<rparr>"

subsection \<open>Observations on requests and outcomes\<close>

text \<open>The query passes the first check of the handler.\<close>

definition valid_query :: "request \<Rightarrow> bool" where
  "valid_query req =
     (truthy (query_query req) \<and> typeof_string (query_query req)
      \<and> js_length (query_query req) \<le> 500)"

text \<open>Both indexes pass \<^verbatim>\<open>macros.isNumeric\<close>.\<close>

definition numeric_indexes :: "('j, 'i, 'r) env \<Rightarrow> request \<Rightarrow> bool" where
  "numeric_indexes env req =
     (isNumeric env (query_minIndex req) \<and> isNumeric env (query_maxIndex req))"

text \<open>The values of the local variables \<^verbatim>\<open>minIndex\<close> and \<^verbatim>\<open>maxIndex\<close> of the handler.\<close>

definition minIndex_of :: "request \<Rightarrow> jsnum" where
  "minIndex_of req =
     (if truthy (query_minIndex req) then parseInt (query_minIndex req) else Num 0)"

definition maxIndex_of :: "request \<Rightarrow> jsnum" where
  "maxIndex_of req =
     (if truthy (query_maxIndex req) then parseInt (query_maxIndex req) else Num 10)"

text \<open>What \<^verbatim>\<open>await getSearch()\<close> meets in a state: the settled promise.\<close>

definition awaited :: "('j, 'i, 'r) env \<Rightarrow> 'i server_state \<Rightarrow> 'i option settled" where
  "awaited env st = snd (fst (getSearch env st))"

text \<open>The request is answered by the redirect to https.\<close>

definition redirected :: "('j, 'i, 'r) env \<Rightarrow> request \<Rightarrow> bool" where
  "redirected env req =
     (protocol req \<noteq> ''https'' \<and> \<not> forwarded_https req \<and> \<not> macros_DEV env)"


text \<open>The body of the response that was sent, if one was.\<close>

fun sent_body :: "outcome \<Rightarrow> payload option" where
  "sent_body (Sent r) = Some (body r)"
| "sent_body (NextError e r) = None"
| "sent_body (Unrouted r) = None"

section \<open>Query engine (common/search)\<close>

text \<open>
  Modelled from the spec: the search module \<^verbatim>\<open>../common/search\<close> that server.js imports is
  not among the source files. Documents, tokenization, postings, scoring, ranking and
  pagination follow sections 3, 4.2 and 4.3 of the specification. The field weights and
  the floor of the inverse document frequency are configuration, as the specification
  asks. The window bounds are natural numbers: the engine assumes validated, non-negative
  bounds.
\<close>

datatype entity = Course | Section | Employee

record document =
  doc_id :: nat
  entityType :: entity
  doc_fields :: "(string \<times> string) list"
  doc_payload :: string

record posting =
  posting_doc :: nat
  termFrequency :: nat
  fieldWeight :: real

record index =
  documents :: "document list"
  postings :: "(string \<times> posting list) list"
  totalDocuments :: nat

record config =
  field_weight :: "string \<Rightarrow> real"
  idf_floor :: real

datatype search_error = InvalidRange

definition is_alnum :: "char \<Rightarrow> bool" where
  "is_alnum c =
     (let n = of_char c :: nat
      in (48 \<le> n \<and> n \<le> 57) \<or> (65 \<le> n \<and> n \<le> 90) \<or> (97 \<le> n \<and> n \<le> 122))"

definition lowercase :: "char \<Rightarrow> char" where
  "lowercase c =
     (let n = of_char c :: nat in if 65 \<le> n \<and> n \<le> 90 then char_of (n + 32) else c)"

text \<open>
  Modelled from the spec: splitting on non-alphanumeric boundaries (section 4.2); \<open>cur\<close>
  is the token being read, reversed.
\<close>

fun split_tokens :: "string \<Rightarrow> string \<Rightarrow> string list" where
  "split_tokens cur [] = (if cur = [] then [] else [rev cur])"
| "split_tokens cur (c # cs) =
     (if is_alnum c then split_tokens (c # cur) cs
      else if cur = [] then split_tokens [] cs
      else rev cur # split_tokens [] cs)"

text \<open>
  Modelled from the spec: tokenization of the absent search module (section 4.2):
  lowercase, split, drop the tokens shorter than two characters.
\<close>

definition tokenize :: "string \<Rightarrow> string list" where
  "tokenize s = filter (\<lambda>t. 2 \<le> length t) (split_tokens [] (map lowercase s))"

text \<open>
  Modelled from the spec: the postings of a term in one document (sections 3 and 4.2), one
  per field that contains the term, with the frequency in the field and the field's weight.
\<close>

definition doc_postings :: "config \<Rightarrow> document \<Rightarrow> string \<Rightarrow> posting list" where
  "doc_postings cfg d term =
     map (\<lambda>f. \<lparr>posting_doc = doc_id d,
               termFrequency = count_list (tokenize (snd f)) term,
               fieldWeight = field_weight cfg (fst f)\<rparr>)
       (filter (\<lambda>f. term \<in> set (tokenize (snd f))) (doc_fields d))"

text \<open>
  Modelled from the spec: \<^verbatim>\<open>build(documents)\<close> (section 4.2): one pass over the documents,
  postings accumulated per term; an empty input gives a valid empty index.
\<close>

definition terms_of :: "document list \<Rightarrow> string list" where
  "terms_of docs = remdups (concat (map (\<lambda>d. concat (map (\<lambda>f. tokenize (snd f)) (doc_fields d))) docs))"

definition build :: "config \<Rightarrow> document list \<Rightarrow> index" where
  "build cfg docs =
     \<lparr>documents = docs,
      postings = map (\<lambda>term. (term, concat (map (\<lambda>d. doc_postings cfg d term) docs)))
                   (terms_of docs),
      totalDocuments = length docs\<rparr>"

text \<open>
  Modelled from the spec: the score of a document (section 4.3): the sum over the query
  tokens of \<open>termFrequency * fieldWeight * idf\<close>, with
  \<open>idf = log (totalDocuments / documentsContainingTerm)\<close> floored at a positive constant.
  A term with no posting adds nothing to any score.
\<close>

definition lookup_postings :: "index \<Rightarrow> string \<Rightarrow> posting list" where
  "lookup_postings idx term =
     (case map_of (postings idx) term of None \<Rightarrow> [] | Some ps \<Rightarrow> ps)"

definition documentsContainingTerm :: "index \<Rightarrow> string \<Rightarrow> nat" where
  "documentsContainingTerm idx term =
     length (remdups (map posting_doc (lookup_postings idx term)))"

definition idf :: "config \<Rightarrow> index \<Rightarrow> string \<Rightarrow> real" where
  "idf cfg idx term =
     max (idf_floor cfg)
       (ln (real (totalDocuments idx) / real (documentsContainingTerm idx term)))"

definition score :: "config \<Rightarrow> index \<Rightarrow> string list \<Rightarrow> document \<Rightarrow> real" where
  "score cfg idx tokens d =
     sum_list (map (\<lambda>term.
        sum_list (map (\<lambda>p. real (termFrequency p) * fieldWeight p * idf cfg idx term)
          (filter (\<lambda>p. posting_doc p = doc_id d) (lookup_postings idx term))))
       tokens)"

text \<open>
  Modelled from the spec: the documents that match at least one token of the query; the
  others are excluded (section 4.3).
\<close>

definition matching :: "index \<Rightarrow> string list \<Rightarrow> document list" where
  "matching idx tokens =
     filter (\<lambda>d. list_ex (\<lambda>term. list_ex (\<lambda>p. posting_doc p = doc_id d)
                                   (lookup_postings idx term)) tokens)
       (documents idx)"

fun precedence :: "entity \<Rightarrow> nat" where
  "precedence Course = 0"
| "precedence Section = 0"
| "precedence Employee = 1"

text \<open>
  Modelled from the spec: the ranking order (section 4.3): higher score first; then the
  entity type, courses and sections before employees; then the document id.
\<close>

definition ranks_before ::
  "config \<Rightarrow> index \<Rightarrow> string list \<Rightarrow> document \<Rightarrow> document \<Rightarrow> bool" where
  "ranks_before cfg idx tokens d1 d2 =
     (score cfg idx tokens d2 < score cfg idx tokens d1
      \<or> (score cfg idx tokens d1 = score cfg idx tokens d2
          \<and> (precedence (entityType d1) < precedence (entityType d2)
              \<or> (precedence (entityType d1) = precedence (entityType d2)
                  \<and> doc_id d1 \<le> doc_id d2))))"

fun insert_ranked :: "(document \<Rightarrow> document \<Rightarrow> bool) \<Rightarrow> document \<Rightarrow> document list \<Rightarrow> document list" where
  "insert_ranked before d [] = [d]"
| "insert_ranked before d (x # xs) =
     (if before d x then d # x # xs else x # insert_ranked before d xs)"

text \<open>
  Modelled from the spec: the full ranked list of the matching documents, and the number
  of matches that section 8 calls \<open>totalMatches\<close>.
\<close>

definition ranked :: "config \<Rightarrow> index \<Rightarrow> string list \<Rightarrow> document list" where
  "ranked cfg idx tokens =
     foldr (insert_ranked (ranks_before cfg idx tokens)) (matching idx tokens) []"

definition totalMatches :: "index \<Rightarrow> string \<Rightarrow> nat" where
  "totalMatches idx q = length (matching idx (tokenize q))"

text \<open>
  Modelled from the spec: \<^verbatim>\<open>search(index, query, minIndex, maxIndex)\<close> of the absent search
  module (section 4.3): the slice \<open>[minIndex, maxIndex)\<close> of the ranked list, each
  document with its score; a range with \<open>minIndex > maxIndex\<close> is rejected before any
  scoring.
\<close>

definition search ::
  "config \<Rightarrow> index \<Rightarrow> string \<Rightarrow> nat \<Rightarrow> nat \<Rightarrow> search_error + (document \<times> real) list" where
  "search cfg idx q minIndex maxIndex =
     (if maxIndex < minIndex then Inl InvalidRange
      else Inr (map (\<lambda>d. (d, score cfg idx (tokenize q) d))
                  (take (maxIndex - minIndex)
                     (drop minIndex (ranked cfg idx (tokenize q))))))"

text \<open>The scenario of the specification: one course and one employee.\<close>

definition example_config :: config where
  "example_config = \<lparr>field_weight = (\<lambda>name. 1), idf_floor = 1\<rparr>"

definition example_documents :: "document list" where
  "example_documents =
     [\<lparr>doc_id = 1, entityType = Course,
       doc_fields = [(''subject'', ''CS''), (''number'', ''101''), (''title'', ''Intro to Programming'')],
       doc_payload = ''course''\<rparr>,
      \<lparr>doc_id = 2, entityType = Employee,
       doc_fields = [(''name'', ''Jane Doe''), (''department'', ''CS'')],
       doc_payload = ''employee''\<rparr>]"

section \<open>Tooltip rebuild debouncing (src/frontend/components/macros.js)\<close>

text \<open>
  The timers of the page as far as this module makes them: each pending timer is a
  scheduled call of \<^verbatim>\<open>ReactTooltip.rebuild\<close>, with its id and the time it is due. Time is
  in milliseconds. \<open>rebuilds\<close> lists the times at which \<^verbatim>\<open>ReactTooltip.rebuild\<close> ran.
\<close>

record timers =
  clock :: nat
  tooltipTimer :: "nat option"
  pending :: "(nat \<times> nat) list"
  next_id :: nat
  rebuilds :: "nat list"

definition initial_timers :: timers where
  "initial_timers =
     \<lparr>clock = 0, tooltipTimer = None, pending = [], next_id = 1, rebuilds = []\<rparr>"

text \<open>\<^verbatim>\<open>clearTimeout(id)\<close>: \<^verbatim>\<open>null\<close> and ids of no pending timer are ignored.\<close>

definition clearTimeout :: "nat option \<Rightarrow> timers \<Rightarrow> timers" where
  "clearTimeout tid st = st\<lparr>pending := filter (\<lambda>t. Some (fst t) \<noteq> tid) (pending st)\<rparr>"

text \<open>\<^verbatim>\<open>setTimeout(ReactTooltip.rebuild.bind(ReactTooltip), delay)\<close> returns the new id.\<close>

definition setTimeout :: "nat \<Rightarrow> timers \<Rightarrow> nat \<times> timers" where
  "setTimeout delay st =
     (next_id st,
      st\<lparr>pending := pending st @ [(next_id st, clock st + delay)],
         next_id := Suc (next_id st)\<rparr>)"

definition debounceTooltipRebuild :: "timers \<Rightarrow> timers" where
  "debounceTooltipRebuild st =
     (case setTimeout 20 (clearTimeout (tooltipTimer st) st) of
        (tid, st1) \<Rightarrow> st1\<lparr>tooltipTimer := Some tid\<rparr>)"

text \<open>
  What happens in the page: the component calls \<^verbatim>\<open>debounceTooltipRebuild\<close>, time passes,
  or the event loop runs the timers that are due.
\<close>

datatype event = Call | Elapse nat | RunTimers

definition is_due :: "timers \<Rightarrow> nat \<times> nat \<Rightarrow> bool" where
  "is_due st t = (snd t \<le> clock st)"

fun step :: "event \<Rightarrow> timers \<Rightarrow> timers" where
  "step Call st = debounceTooltipRebuild st"
| "step (Elapse d) st = st\<lparr>clock := clock st + d\<rparr>"
| "step RunTimers st =
     st\<lparr>rebuilds := rebuilds st @ map (\<lambda>t. clock st) (filter (is_due st) (pending st)),
        pending := filter (\<lambda>t. \<not> is_due st t) (pending st)\<rparr>"

fun run :: "event list \<Rightarrow> timers \<Rightarrow> timers" where
  "run [] st = st"
| "run (e # es) st = run es (step e st)"

text \<open>A stretch with no call, and the time that passes in it.\<close>

fun quiet :: "event list \<Rightarrow> bool" where
  "quiet [] = True"
| "quiet (Call # es) = False"
| "quiet (e # es) = quiet es"

fun elapsed :: "event list \<Rightarrow> nat" where
  "elapsed [] = 0"
| "elapsed (Elapse d # es) = d + elapsed es"
| "elapsed (e # es) = elapsed es"

text \<open>
  A burst: calls, each followed by a quiet stretch; the last call of the burst comes
  after them.
\<close>

definition burst :: "event list list \<Rightarrow> event list" where
  "burst segs = concat (map (\<lambda>seg. Call # seg) segs) @ [Call]"

section \<open>Properties of the server\<close>

subsection \<open>The index is built once\<close>

lemma getSearch_cached: "searchPromise st = Some p \<Longrightarrow> getSearch env st = (p, st)"
  by (simp add: getSearch_def)

lemma getSearch_first:
  "searchPromise st = None \<Longrightarrow>
   getSearch env st =
     (search_build env,
      st\<lparr>calls := calls st @ build_calls env, searchPromise := Some (search_build env)\<rparr>)"
  by (simp add: getSearch_def build_promise_def search_build_def Let_def)

lemma getSearch_calls_cached:
  "searchPromise st = Some p \<Longrightarrow> getSearch_calls env n st = (replicate n p, st)"
  by (induction n) (simp_all add: getSearch_cached)

lemma reads_of_build_calls: "filter is_read (build_calls env) = map FsReadFile dump_paths"
  by (simp add: build_calls_def parse_calls_def dump_paths_def filter_map comp_def)

lemma creates_of_build_calls: "count_list (build_calls env) SearchCreate \<le> Suc 0"
  by (simp add: build_calls_def parse_calls_def dump_paths_def)

lemma startup_state:
  "searchPromise (startup env) = Some (search_build env)
   \<and> calls (startup env) = build_calls env"
  by (simp add: startup_def getSearch_first initial_state_def split: prod.splits settled.splits)

lemma search_build_present:
  "search_build (example_env is_prod present_files) =
     (1, Fulfilled (Some [''{}'', ''{}'', ''{}'', ''{}'']))"
  by (simp add: search_build_def example_env_def present_files_def dump_paths_def
      dump_promise_def readFile_promise_def then_promise_def Promise_all_def)

lemma search_build_missing:
  "search_build (example_env is_prod missing_files) = (1, Rejected (ReadFailed termDump_path))"
  by (simp add: search_build_def example_env_def missing_files_def dump_paths_def
      dump_promise_def readFile_promise_def then_promise_def Promise_all_def)

text \<open>
  C1. Whatever the number of calls of \<^verbatim>\<open>getSearch\<close> from module load on, every call
  returns the promise of one and the same build, and the calls made into the file system
  and the search module are those of one build at most: each of the four dump files is
  read once and \<^verbatim>\<open>search.create\<close> is called at most once. All callers thus await the same
  promise, which settles to one index or to one failure.
\<close>

theorem getSearch_single_build:
  "fst (getSearch_calls env n initial_state) = replicate n (search_build env)
   \<and> calls (snd (getSearch_calls env n initial_state)) = (if n = 0 then [] else build_calls env)
   \<and> filter is_read (build_calls env) = map FsReadFile dump_paths
   \<and> count_list (build_calls env) SearchCreate \<le> 1"
proof -
  have first: "getSearch env initial_state =
      (search_build env,
       \<lparr>searchPromise = Some (search_build env), calls = build_calls env, unhandled = []\<rparr>)"
    by (simp add: getSearch_first initial_state_def)
  have rest: "getSearch_calls env m
       \<lparr>searchPromise = Some (search_build env), calls = build_calls env, unhandled = []\<rparr> =
      (replicate m (search_build env),
       \<lparr>searchPromise = Some (search_build env), calls = build_calls env, unhandled = []\<rparr>)"
    for m
    by (rule getSearch_calls_cached) simp
  have run: "fst (getSearch_calls env n initial_state) = replicate n (search_build env)
      \<and> calls (snd (getSearch_calls env n initial_state)) =
        (if n = 0 then [] else build_calls env)"
  proof (cases n)
    case 0
    then show ?thesis by (simp add: initial_state_def)
  next
    case (Suc m)
    then show ?thesis by (simp add: first rest)
  qed
  show ?thesis
    using run reads_of_build_calls[of env] creates_of_build_calls[of env] by simp
qed

theorem getSearch_single_build_witness:
  "fst (getSearch_calls (example_env False present_files) 50 initial_state) =
     replicate 50 (1, Fulfilled (Some [''{}'', ''{}'', ''{}'', ''{}'']))
   \<and> fst (getSearch_calls (example_env False missing_files) 50 initial_state) =
     replicate 50 (1, Rejected (ReadFailed termDump_path))"
  using getSearch_single_build[of "example_env False present_files" 50]
    getSearch_single_build[of "example_env False missing_files" 50]
  by (simp only: search_build_present search_build_missing)

subsection \<open>Queries read no file\<close>

lemma search_handler_cached:
  assumes "searchPromise st = Some p"
  shows "searchPromise (snd (search_handler env req res st)) = Some p
    \<and> filter is_read (calls (snd (search_handler env req res st))) = filter is_read (calls st)"
  using assms
  by (simp add: search_handler_def getSearch_cached Let_def
      split: settled.splits option.splits sum.splits)

lemma app_cached:
  assumes "searchPromise st = Some p"
  shows "searchPromise (snd (app env req st)) = Some p
    \<and> filter is_read (calls (snd (app env req st))) = filter is_read (calls st)"
  using search_handler_cached[OF assms, of env req "security_headers env new_response"]
  by (simp add: app_def Let_def assms split: option.splits)

lemma serve_cached:
  "searchPromise st = Some p \<Longrightarrow>
   searchPromise (snd (serve env reqs st)) = Some p
    \<and> filter is_read (calls (snd (serve env reqs st))) = filter is_read (calls st)"
proof (induction reqs arbitrary: st)
  case Nil
  then show ?case by simp
next
  case (Cons req reqs)
  obtain out st1 where a: "app env req st = (out, st1)" by (cases "app env req st")
  have s1: "searchPromise st1 = Some p \<and> filter is_read (calls st1) = filter is_read (calls st)"
    using app_cached[OF Cons.prems, of env req] a by simp
  obtain outs st2 where b: "serve env reqs st1 = (outs, st2)" by (cases "serve env reqs st1")
  show ?case using Cons.IH[of st1] s1 a b by simp
qed

text \<open>
  C7. The first call of \<^verbatim>\<open>getSearch\<close>, made at module load, reads the four dump files
  and leaves \<^verbatim>\<open>searchPromise\<close> set. From then on no request reads a file: after any list
  of requests the file reads in the log are still the four of the build, and a
  \<^verbatim>\<open>/search\<close> request handled in a state whose \<^verbatim>\<open>searchPromise\<close> is set adds no read.
\<close>

theorem queries_read_no_files:
  "filter is_read (calls (startup env)) = map FsReadFile dump_paths
   \<and> filter is_read (calls (snd (serve env reqs (startup env)))) = map FsReadFile dump_paths
   \<and> (searchPromise st \<noteq> None \<longrightarrow>
        filter is_read (calls (snd (search_handler env req res st))) = filter is_read (calls st))"
proof -
  have a: "filter is_read (calls (startup env)) = map FsReadFile dump_paths"
    by (simp add: startup_state reads_of_build_calls)
  have b: "filter is_read (calls (snd (serve env reqs (startup env)))) =
      filter is_read (calls (startup env))"
    using serve_cached[of "startup env" "search_build env" env reqs]
    by (simp add: startup_state)
  have c: "searchPromise st \<noteq> None \<longrightarrow>
      filter is_read (calls (snd (search_handler env req res st))) = filter is_read (calls st)"
    using search_handler_cached[of st _ env req res] by auto
  show ?thesis using a b c by simp
qed

theorem queries_read_no_files_witness:
  "searchPromise (startup (example_env False present_files)) \<noteq> None
   \<and> filter is_read (calls (snd (search_handler (example_env False present_files)
        (example_request ''cs'' ''0'' ''10'') new_response
        (startup (example_env False present_files))))) = map FsReadFile dump_paths"
  using queries_read_no_files[of "example_env False present_files" "[]"
      "startup (example_env False present_files)" "example_request ''cs'' ''0'' ''10''"
      new_response]
  by (simp add: startup_state)

subsection \<open>The branches of the search handler\<close>

lemma search_handler_invalid_query:
  "\<not> valid_query req \<Longrightarrow>
   search_handler env req res st = (Sent (send res ''Need query param.''), st)"
  by (auto simp add: search_handler_def valid_query_def)

lemma search_handler_not_numeric:
  "valid_query req \<Longrightarrow> \<not> numeric_indexes env req \<Longrightarrow>
   search_handler env req res st = (Sent (send res ''Max and Min index must be numbers.''), st)"
  by (auto simp add: search_handler_def valid_query_def numeric_indexes_def)

lemma search_handler_rejected:
  "valid_query req \<Longrightarrow> numeric_indexes env req \<Longrightarrow> awaited env st = Rejected e \<Longrightarrow>
   search_handler env req res st = (NextError e res, snd (getSearch env st))"
  by (auto simp add: search_handler_def valid_query_def numeric_indexes_def awaited_def
      Let_def split: prod.splits)

lemma search_handler_unavailable:
  "valid_query req \<Longrightarrow> numeric_indexes env req \<Longrightarrow> awaited env st = Fulfilled None \<Longrightarrow>
   search_handler env req res st =
     (Sent (send (setHeader res ''Cache-Control'' ''no-cache, no-store'')
        ''Could not start backend. No data found.''), snd (getSearch env st))"
  by (auto simp add: search_handler_def valid_query_def numeric_indexes_def awaited_def
      Let_def split: prod.splits)

lemma search_handler_available:
  "valid_query req \<Longrightarrow> numeric_indexes env req \<Longrightarrow> awaited env st = Fulfilled (Some idx) \<Longrightarrow>
   search_handler env req res st =
     (case index_search env idx (ToString (query_query req)) (minIndex_of req) (maxIndex_of req) of
        Inl e \<Rightarrow> NextError e res
      | Inr results \<Rightarrow> Sent (send res (JSON_stringify env results)),
      (snd (getSearch env st))\<lparr>calls := calls (snd (getSearch env st)) @
         [IndexSearch (ToString (query_query req)) (minIndex_of req) (maxIndex_of req)]\<rparr>)"
  by (auto simp add: search_handler_def valid_query_def numeric_indexes_def awaited_def
      minIndex_of_def maxIndex_of_def Let_def split: prod.splits sum.splits)

subsection \<open>The handler at concrete requests\<close>

lemma awaited_after_startup: "awaited env (startup env) = snd (search_build env)"
  by (simp add: awaited_def getSearch_cached[of _ "search_build env"] startup_state)

lemma getSearch_after_startup: "snd (getSearch env (startup env)) = startup env"
  by (simp add: getSearch_cached[of _ "search_build env"] startup_state)

lemma example_request_valid: "valid_query (example_request ''cs'' lo hi)"
  by (simp add: valid_query_def example_request_def)

lemma example_request_route:
  "route (example_request q lo hi) = SearchRoute
   \<and> https_redirect env (example_request q lo hi) res = None"
  by (simp add: example_request_def https_redirect_def)

lemma app_example_request:
  "app env (example_request q lo hi) st =
     search_handler env (example_request q lo hi) (security_headers env new_response) st"
  by (simp add: app_def example_request_route)

lemma numeric_0_10: "numeric_indexes (example_env is_prod files) (example_request q ''0'' ''10'')"
  by (simp add: numeric_indexes_def example_env_def example_request_def is_decimal_digit_def)

lemma numeric_7_3: "numeric_indexes (example_env is_prod files) (example_request q ''7'' ''3'')"
  by (simp add: numeric_indexes_def example_env_def example_request_def is_decimal_digit_def)

lemma numeric_minus5_3:
  "numeric_indexes (example_env is_prod files) (example_request q ''-5'' ''3'')"
  by (simp add: numeric_indexes_def example_env_def example_request_def is_decimal_digit_def)

lemma parseInt_examples:
  "parseInt (QString ''0'') = Num 0 \<and> parseInt (QString ''10'') = Num 10
   \<and> parseInt (QString ''7'') = Num 7 \<and> parseInt (QString ''3'') = Num 3
   \<and> parseInt (QString ''-5'') = Num (- 5)"
  by (simp add: parseInt_def parseInt_string_def is_space_def
      digit_value_def digits_value_def to_double_def Let_def)

text \<open>
  C2. With all four dump files missing the build promise rejects. The \<^verbatim>\<open>try\<close> block of
  \<^verbatim>\<open>getSearch\<close> has no \<^verbatim>\<open>await\<close>, so its \<^verbatim>\<open>catch\<close> never runs and \<^verbatim>\<open>getSearch\<close> never
  returns \<^verbatim>\<open>null\<close>: a valid \<^verbatim>\<open>/search\<close> request does not reach the branch that answers
  'Could not start backend. No data found.'; the handler fails with the read error, which
  goes to Express's error handling.
\<close>

theorem missing_files_request_fails:
  "app (example_env False missing_files) (example_request ''cs'' ''0'' ''10'')
     (startup (example_env False missing_files)) =
   (NextError (ReadFailed termDump_path)
      (security_headers (example_env False missing_files) new_response),
    startup (example_env False missing_files))"
  by (simp add: app_example_request search_handler_rejected[OF example_request_valid numeric_0_10]
      awaited_after_startup search_build_missing getSearch_after_startup)

text \<open>
  C4. With the dump files missing, the promise of the call of \<^verbatim>\<open>getSearch\<close> at module
  load rejects and nothing handles it: start-up leaves an unhandled promise rejection.
\<close>

theorem missing_files_unhandled_rejection:
  "unhandled (startup (example_env False missing_files)) = [ReadFailed termDump_path]"
  by (simp add: startup_def getSearch_first initial_state_def search_build_missing
      split: prod.splits)

subsection \<open>Validation of the window\<close>

text \<open>
  C3, as stated, fails: the handler tests the indexes with \<^verbatim>\<open>macros.isNumeric\<close> only.
  A request with \<open>minIndex = 7\<close> and \<open>maxIndex = 3\<close>, and one with \<open>minIndex = -5\<close>, reach
  \<^verbatim>\<open>index.search\<close> with these values.
\<close>

theorem search_called_with_bad_range:
  "calls (snd (app (example_env False present_files) (example_request ''cs'' ''7'' ''3'')
     (startup (example_env False present_files)))) =
     build_calls (example_env False present_files) @ [IndexSearch ''cs'' (Num 7) (Num 3)]
   \<and> calls (snd (app (example_env False present_files) (example_request ''cs'' ''-5'' ''3'')
     (startup (example_env False present_files)))) =
     build_calls (example_env False present_files) @ [IndexSearch ''cs'' (Num (- 5)) (Num 3)]"
proof -
  let ?E = "example_env False present_files :: (string, string list, string) env"
  have aw: "awaited ?E (startup ?E) = Fulfilled (Some [''{}'', ''{}'', ''{}'', ''{}''])"
    by (simp add: awaited_after_startup search_build_present)
  have idx: "minIndex_of (example_request ''cs'' ''7'' ''3'') = Num 7
      \<and> maxIndex_of (example_request ''cs'' ''7'' ''3'') = Num 3
      \<and> minIndex_of (example_request ''cs'' ''-5'' ''3'') = Num (- 5)
      \<and> maxIndex_of (example_request ''cs'' ''-5'' ''3'') = Num 3
      \<and> ToString (query_query (example_request ''cs'' lo hi)) = ''cs''" for lo hi
    by (simp add: minIndex_of_def maxIndex_of_def parseInt_examples example_request_def)
  have a: "calls (snd (app ?E (example_request ''cs'' ''7'' ''3'') (startup ?E))) =
      build_calls ?E @ [IndexSearch ''cs'' (Num 7) (Num 3)]"
    by (simp add: app_example_request
        search_handler_available[OF example_request_valid numeric_7_3 aw]
        getSearch_after_startup startup_state idx)
  have b: "calls (snd (app ?E (example_request ''cs'' ''-5'' ''3'') (startup ?E))) =
      build_calls ?E @ [IndexSearch ''cs'' (Num (- 5)) (Num 3)]"
    by (simp add: app_example_request
        search_handler_available[OF example_request_valid numeric_minus5_3 aw]
        getSearch_after_startup startup_state idx)
  show ?thesis using a b by simp
qed

text \<open>
  C3, amended. The handler rejects the request before it invokes the query engine
  unless \<^verbatim>\<open>macros.isNumeric\<close> accepts both \<^verbatim>\<open>minIndex\<close> and \<^verbatim>\<open>maxIndex\<close>: then no call is
  made and the state is unchanged. It checks neither the sign nor the order: for a valid
  query, two accepted indexes and an index that was built, \<^verbatim>\<open>index.search\<close> is called once
  with the \<^verbatim>\<open>parseInt\<close> of each (0 and 10 where the parameter is falsy).
\<close>

theorem search_handler_checks_numeric_only:
  "(\<not> numeric_indexes env req \<longrightarrow>
      snd (search_handler env req res st) = st
      \<and> (fst (search_handler env req res st) = Sent (send res ''Need query param.'')
         \<or> fst (search_handler env req res st) =
             Sent (send res ''Max and Min index must be numbers.'')))
   \<and> (valid_query req \<and> numeric_indexes env req \<and> awaited env st = Fulfilled (Some idx) \<longrightarrow>
      calls (snd (search_handler env req res st)) =
        calls (snd (getSearch env st)) @
        [IndexSearch (ToString (query_query req)) (minIndex_of req) (maxIndex_of req)])"
proof -
  have a: "\<not> numeric_indexes env req \<longrightarrow>
      snd (search_handler env req res st) = st
      \<and> (fst (search_handler env req res st) = Sent (send res ''Need query param.'')
         \<or> fst (search_handler env req res st) =
             Sent (send res ''Max and Min index must be numbers.''))"
  proof (cases "valid_query req")
    case True
    then show ?thesis by (simp add: search_handler_not_numeric)
  next
    case False
    then show ?thesis by (simp add: search_handler_invalid_query)
  qed
  have b: "valid_query req \<and> numeric_indexes env req \<and> awaited env st = Fulfilled (Some idx) \<longrightarrow>
      calls (snd (search_handler env req res st)) =
        calls (snd (getSearch env st)) @
        [IndexSearch (ToString (query_query req)) (minIndex_of req) (maxIndex_of req)]"
    by (simp add: search_handler_available)
  show ?thesis using a b by blast
qed

theorem search_handler_checks_numeric_only_witness:
  "\<not> numeric_indexes (example_env False present_files) (example_request ''cs'' ''abc'' ''3'')
   \<and> search_handler (example_env False present_files) (example_request ''cs'' ''abc'' ''3'')
       new_response (startup (example_env False present_files)) =
     (Sent (send new_response ''Max and Min index must be numbers.''),
      startup (example_env False present_files))
   \<and> valid_query (example_request ''cs'' ''7'' ''3'')
   \<and> numeric_indexes (example_env False present_files) (example_request ''cs'' ''7'' ''3'')
   \<and> awaited (example_env False present_files) (startup (example_env False present_files)) =
       Fulfilled (Some [''{}'', ''{}'', ''{}'', ''{}''])
   \<and> calls (snd (search_handler (example_env False present_files)
        (example_request ''cs'' ''7'' ''3'') new_response
        (startup (example_env False present_files)))) =
      build_calls (example_env False present_files) @ [IndexSearch ''cs'' (Num 7) (Num 3)]"
proof -
  let ?E = "example_env False present_files :: (string, string list, string) env"
  have n: "\<not> numeric_indexes ?E (example_request ''cs'' ''abc'' ''3'')"
    by (simp add: numeric_indexes_def example_env_def example_request_def is_decimal_digit_def)
  have v: "valid_query (example_request ''cs'' ''abc'' ''3'')"
    by (rule example_request_valid)
  have aw: "awaited ?E (startup ?E) = Fulfilled (Some [''{}'', ''{}'', ''{}'', ''{}''])"
    by (simp add: awaited_after_startup search_build_present)
  have r1: "search_handler ?E (example_request ''cs'' ''abc'' ''3'') new_response (startup ?E) =
     (Sent (send new_response ''Max and Min index must be numbers.''), startup ?E)"
    using search_handler_checks_numeric_only[where env = ?E
        and req = "example_request ''cs'' ''abc'' ''3''" and st = "startup ?E"
        and res = new_response] n
    by (simp add: search_handler_not_numeric[OF v n])
  have idx: "minIndex_of (example_request ''cs'' ''7'' ''3'') = Num 7
      \<and> maxIndex_of (example_request ''cs'' ''7'' ''3'') = Num 3
      \<and> ToString (query_query (example_request ''cs'' ''7'' ''3'')) = ''cs''"
    by (simp add: minIndex_of_def maxIndex_of_def parseInt_examples example_request_def)
  have r2: "calls (snd (search_handler ?E (example_request ''cs'' ''7'' ''3'') new_response
        (startup ?E))) = build_calls ?E @ [IndexSearch ''cs'' (Num 7) (Num 3)]"
    using search_handler_checks_numeric_only[where env = ?E
        and req = "example_request ''cs'' ''7'' ''3''" and st = "startup ?E"
        and idx = "[''{}'', ''{}'', ''{}'', ''{}'']" and res = new_response]
      example_request_valid[of "''7''" "''3''"] numeric_7_3[of False present_files "''cs''"] aw
    by (simp add: getSearch_after_startup startup_state idx)
  show ?thesis
    using n r1 r2 aw example_request_valid[of "''7''" "''3''"]
      numeric_7_3[of False present_files "''cs''"]
    by simp
qed

subsection \<open>Validation of the query and the JSON body\<close>

text \<open>
  C6. A request whose \<^verbatim>\<open>query\<close> parameter is absent, not a string, or longer than 500
  characters is answered with the text 'Need query param.' and the state is unchanged: the
  search engine is not invoked. A request with a valid query and numeric indexes, served
  when the build has produced an index, is answered with \<^verbatim>\<open>JSON.stringify\<close> of the
  results that \<^verbatim>\<open>index.search\<close> returns.
\<close>

theorem search_handler_query_validation:
  "(query_query req = QUndefined \<or> \<not> typeof_string (query_query req)
      \<or> 500 < js_length (query_query req) \<longrightarrow>
      search_handler env req res st = (Sent (send res ''Need query param.''), st)
      \<and> body (send res ''Need query param.'') = Text ''Need query param.'')
   \<and> (valid_query req \<and> numeric_indexes env req \<and> awaited env st = Fulfilled (Some idx)
       \<and> index_search env idx (ToString (query_query req)) (minIndex_of req) (maxIndex_of req)
           = Inr results \<longrightarrow>
      fst (search_handler env req res st) = Sent (send res (JSON_stringify env results))
      \<and> body (send res (JSON_stringify env results)) = Text (JSON_stringify env results))"
proof -
  have a: "query_query req = QUndefined \<or> \<not> typeof_string (query_query req)
      \<or> 500 < js_length (query_query req) \<Longrightarrow> \<not> valid_query req"
    by (auto simp add: valid_query_def)
  show ?thesis
    using a by (auto simp add: search_handler_invalid_query search_handler_available send_def)
qed

theorem search_handler_query_validation_witness:
  "search_handler (example_env False present_files)
      ((example_request ''cs'' ''0'' ''10'')\<lparr>query_query := QUndefined\<rparr>) new_response
      (startup (example_env False present_files)) =
     (Sent (send new_response ''Need query param.''), startup (example_env False present_files))
   \<and> search_handler (example_env False present_files)
      ((example_request ''cs'' ''0'' ''10'')\<lparr>query_query := QArray [QString ''cs'']\<rparr>)
      new_response (startup (example_env False present_files)) =
     (Sent (send new_response ''Need query param.''), startup (example_env False present_files))
   \<and> search_handler (example_env False present_files)
      ((example_request ''cs'' ''0'' ''10'')\<lparr>query_query := QString (replicate 501 (CHR ''a''))\<rparr>)
      new_response (startup (example_env False present_files)) =
     (Sent (send new_response ''Need query param.''), startup (example_env False present_files))
   \<and> fst (search_handler (example_env False present_files) (example_request ''cs'' ''0'' ''10'')
      new_response (startup (example_env False present_files))) =
     Sent (send new_response ''[cs]'')"
proof -
  let ?E = "example_env False present_files :: (string, string list, string) env"
  let ?req = "example_request ''cs'' ''0'' ''10''"
  have aw: "awaited ?E (startup ?E) = Fulfilled (Some [''{}'', ''{}'', ''{}'', ''{}''])"
    by (simp add: awaited_after_startup search_build_present)
  have q: "ToString (query_query ?req) = ''cs''"
    by (simp add: example_request_def)
  have s: "index_search ?E idx ''cs'' a b = Inr [''cs''] \<and> JSON_stringify ?E [''cs''] = ''[cs]''"
    for idx a b
    by (simp add: example_env_def)
  have r1: "search_handler ?E (?req\<lparr>query_query := QUndefined\<rparr>) new_response (startup ?E) =
      (Sent (send new_response ''Need query param.''), startup ?E)"
    using search_handler_query_validation[where env = ?E and res = new_response
        and st = "startup ?E" and req = "?req\<lparr>query_query := QUndefined\<rparr>"]
    by simp
  have r2: "search_handler ?E (?req\<lparr>query_query := QArray [QString ''cs'']\<rparr>) new_response
      (startup ?E) = (Sent (send new_response ''Need query param.''), startup ?E)"
    using search_handler_query_validation[where env = ?E and res = new_response
        and st = "startup ?E" and req = "?req\<lparr>query_query := QArray [QString ''cs'']\<rparr>"]
    by simp
  have r3: "search_handler ?E (?req\<lparr>query_query := QString (replicate 501 (CHR ''a''))\<rparr>)
      new_response (startup ?E) = (Sent (send new_response ''Need query param.''), startup ?E)"
    using search_handler_query_validation[where env = ?E and res = new_response
        and st = "startup ?E"
        and req = "?req\<lparr>query_query := QString (replicate 501 (CHR ''a''))\<rparr>"]
    by simp
  have r4: "fst (search_handler ?E ?req new_response (startup ?E)) =
      Sent (send new_response ''[cs]'')"
    using search_handler_query_validation[where env = ?E and res = new_response
        and st = "startup ?E" and req = ?req and idx = "[''{}'', ''{}'', ''{}'', ''{}'']"
        and results = "[''cs'']"]
      example_request_valid[of "''0''" "''10''"] numeric_0_10[of False present_files "''cs''"]
      aw q s
    by simp
  show ?thesis using r1 r2 r3 r4 by simp
qed

subsection \<open>Status of the error responses\<close>

lemma not_redirected: "\<not> redirected env req \<Longrightarrow> https_redirect env req res = None"
  by (auto simp add: redirected_def https_redirect_def)


lemma status_security_headers: "status (security_headers env new_response) = 200"
  by (simp add: security_headers_def setHeader_def new_response_def Let_def)

lemma search_handler_sent:
  "fst (search_handler env req res st) = Sent r \<Longrightarrow>
   status r = status res \<and> (\<exists>text. body r = Text text)"
  by (auto simp add: search_handler_def send_def setHeader_def Let_def
      split: if_splits prod.splits settled.splits option.splits sum.splits)

lemma http_response_text:
  "status r = 200 \<Longrightarrow> body r = Text text \<Longrightarrow>
   status (http_response env req (Sent r)) = (if fresh req text then 304 else 200)"
  by (simp add: http_response_def)

lemma missing_files_outcome:
  "fst (app (example_env is_prod missing_files) (example_request ''cs'' ''0'' ''10'')
     (startup (example_env is_prod missing_files))) =
   NextError (ReadFailed termDump_path)
     (security_headers (example_env is_prod missing_files) new_response)"
  by (simp add: app_example_request search_handler_rejected[OF example_request_valid numeric_0_10]
      awaited_after_startup search_build_missing)

text \<open>
  C8, as stated, fails. With the dump files missing the engine is unavailable, and a valid
  request is not answered by \<^verbatim>\<open>res.send\<close>: the handler fails and Express's final handler
  answers with status 500. And a response sent by \<^verbatim>\<open>res.send\<close> has status 304, not 200,
  when the request is a fresh conditional GET: here a request with no query.
\<close>

theorem search_error_status_not_200:
  "status (http_response (example_env False missing_files) (example_request ''cs'' ''0'' ''10'')
     (fst (app (example_env False missing_files) (example_request ''cs'' ''0'' ''10'')
        (startup (example_env False missing_files))))) = 500
   \<and> status (http_response (example_env False present_files)
     ((example_request ''cs'' ''0'' ''10'')\<lparr>query_query := QUndefined, fresh := (\<lambda>text. True)\<rparr>)
     (fst (app (example_env False present_files)
        ((example_request ''cs'' ''0'' ''10'')\<lparr>query_query := QUndefined, fresh := (\<lambda>text. True)\<rparr>)
        (startup (example_env False present_files))))) = 304"
proof -
  let ?E = "example_env False missing_files :: (string, string list, string) env"
  let ?P = "example_env False present_files :: (string, string list, string) env"
  let ?req = "(example_request ''cs'' ''0'' ''10'')
      \<lparr>query_query := QUndefined, fresh := (\<lambda>text. True)\<rparr>"
  have a: "status (http_response ?E (example_request ''cs'' ''0'' ''10'')
      (fst (app ?E (example_request ''cs'' ''0'' ''10'') (startup ?E)))) = 500"
    by (simp add: missing_files_outcome http_response_def finalhandler_def error_status_def
        status_security_headers)
  have nv: "\<not> valid_query ?req"
    by (simp add: valid_query_def)
  have out: "fst (app ?P ?req (startup ?P)) =
      Sent (send (security_headers ?P new_response) ''Need query param.'')"
    by (simp add: app_def https_redirect_def example_request_def
        search_handler_invalid_query[OF nv, unfolded example_request_def, simplified])
  have b: "status (http_response ?P ?req (fst (app ?P ?req (startup ?P)))) = 304"
    by (simp only: out) (simp add: http_response_def send_def status_security_headers)
  show ?thesis using a b by simp
qed

text \<open>
  C8, amended. On the \<^verbatim>\<open>/search\<close> route (when the request is not redirected to https)
  each error branch that the handler answers itself sends a plain text with \<^verbatim>\<open>res.send\<close>
  and sets no status: 'Need query param.' for a missing, non-string or over-long query,
  'Max and Min index must be numbers.' for a non-numeric index, 'Could not start backend.
  No data found.' for a falsy index. Every response the handler sends, the successful one
  included, is a text on a response object of status 200, and goes out with status 200,
  or with 304 when the request is a fresh conditional GET: on these branches the status
  code does not tell failure from success.
\<close>

theorem search_send_branches_status:
  assumes "route req = SearchRoute" and "\<not> redirected env req"
  shows "(\<not> valid_query req \<longrightarrow>
            fst (app env req st) =
              Sent (send (security_headers env new_response) ''Need query param.''))
    \<and> (valid_query req \<and> \<not> numeric_indexes env req \<longrightarrow>
            fst (app env req st) =
              Sent (send (security_headers env new_response)
                ''Max and Min index must be numbers.''))
    \<and> (valid_query req \<and> numeric_indexes env req \<and> awaited env st = Fulfilled None \<longrightarrow>
            fst (app env req st) =
              Sent (send (setHeader (security_headers env new_response)
                  ''Cache-Control'' ''no-cache, no-store'')
                ''Could not start backend. No data found.''))
    \<and> (\<forall>r. fst (app env req st) = Sent r \<longrightarrow>
          status r = 200
          \<and> (\<exists>text. body r = Text text
                \<and> status (http_response env req (fst (app env req st))) =
                    (if fresh req text then 304 else 200)))"
proof -
  have app_is: "app env req st =
      search_handler env req (security_headers env new_response) st"
    using assms by (simp add: app_def not_redirected)
  have sent: "\<forall>r. fst (app env req st) = Sent r \<longrightarrow>
      status r = 200
      \<and> (\<exists>text. body r = Text text
            \<and> status (http_response env req (fst (app env req st))) =
                (if fresh req text then 304 else 200))"
  proof (intro allI impI)
    fix r
    assume s: "fst (app env req st) = Sent r"
    have st200: "status r = 200"
      using search_handler_sent[of env req "security_headers env new_response" st r] s
      by (simp add: app_is status_security_headers)
    obtain msg where t: "body r = Text msg"
      using search_handler_sent[of env req "security_headers env new_response" st r] s
      by (auto simp add: app_is)
    have "status (http_response env req (fst (app env req st))) =
        (if fresh req msg then 304 else 200)"
      using http_response_text[OF st200 t, of env req] by (simp add: s)
    then show "status r = 200
      \<and> (\<exists>text. body r = Text text
            \<and> status (http_response env req (fst (app env req st))) =
                (if fresh req text then 304 else 200))"
      using st200 t by blast
  qed
  have branches: "(\<not> valid_query req \<longrightarrow>
            fst (app env req st) =
              Sent (send (security_headers env new_response) ''Need query param.''))
    \<and> (valid_query req \<and> \<not> numeric_indexes env req \<longrightarrow>
            fst (app env req st) =
              Sent (send (security_headers env new_response)
                ''Max and Min index must be numbers.''))
    \<and> (valid_query req \<and> numeric_indexes env req \<and> awaited env st = Fulfilled None \<longrightarrow>
            fst (app env req st) =
              Sent (send (setHeader (security_headers env new_response)
                  ''Cache-Control'' ''no-cache, no-store'')
                ''Could not start backend. No data found.''))"
    by (simp add: app_is search_handler_invalid_query search_handler_not_numeric
        search_handler_unavailable)
  show ?thesis
    using branches sent by blast
qed

theorem search_send_branches_status_witness:
  "route (example_request ''cs'' ''abc'' ''3'') = SearchRoute
   \<and> \<not> redirected (example_env True present_files) (example_request ''cs'' ''abc'' ''3'')
   \<and> fst (app (example_env True present_files)
        (example_request ''cs'' ''abc'' ''3'') (startup (example_env True present_files))) =
      Sent (send (security_headers (example_env True present_files) new_response)
        ''Max and Min index must be numbers.'')
   \<and> status (http_response (example_env True present_files) (example_request ''cs'' ''abc'' ''3'')
        (fst (app (example_env True present_files)
          (example_request ''cs'' ''abc'' ''3'') (startup (example_env True present_files))))) =
      200
   \<and> awaited ((example_env True present_files)\<lparr>search_create := (\<lambda>dumps. Inr None)\<rparr>)
        (startup ((example_env True present_files)\<lparr>search_create := (\<lambda>dumps. Inr None)\<rparr>)) =
      Fulfilled None
   \<and> sent_body (fst (app ((example_env True present_files)\<lparr>search_create := (\<lambda>dumps. Inr None)\<rparr>)
        (example_request ''cs'' ''0'' ''10'')
        (startup ((example_env True present_files)\<lparr>search_create := (\<lambda>dumps. Inr None)\<rparr>)))) =
      Some (Text ''Could not start backend. No data found.'')
   \<and> status (http_response ((example_env True present_files)\<lparr>search_create := (\<lambda>dumps. Inr None)\<rparr>)
        (example_request ''cs'' ''0'' ''10'')
        (fst (app ((example_env True present_files)\<lparr>search_create := (\<lambda>dumps. Inr None)\<rparr>)
          (example_request ''cs'' ''0'' ''10'')
          (startup ((example_env True present_files)\<lparr>search_create := (\<lambda>dumps. Inr None)\<rparr>))))) =
      200"
proof -
  let ?E = "example_env True present_files :: (string, string list, string) env"
  let ?N = "?E\<lparr>search_create := (\<lambda>dumps. Inr None)\<rparr>"
  let ?bad = "example_request ''cs'' ''abc'' ''3''"
  let ?req = "example_request ''cs'' ''0'' ''10''"
  have rt: "route (example_request q lo hi) = SearchRoute" for q lo hi
    by (simp add: example_request_def)
  have nr: "\<not> redirected env (example_request q lo hi)" for env :: "(string, string list, string) env"
    and q lo hi
    by (simp add: redirected_def example_request_def)
  have nf: "\<not> fresh (example_request q lo hi) msg" for q lo hi msg
    by (simp add: example_request_def)
  have n: "\<not> numeric_indexes ?E ?bad"
    by (simp add: numeric_indexes_def example_env_def example_request_def is_decimal_digit_def)
  have out1: "fst (app ?E ?bad (startup ?E)) =
      Sent (send (security_headers ?E new_response) ''Max and Min index must be numbers.'')"
    using search_send_branches_status[where env = ?E and req = ?bad and st = "startup ?E",
        OF rt nr]
      example_request_valid[of "''abc''" "''3''"] n
    by simp
  have st1: "status (http_response ?E ?bad (fst (app ?E ?bad (startup ?E)))) = 200"
    using search_send_branches_status[where env = ?E and req = ?bad and st = "startup ?E",
        OF rt nr]
      out1 nf
    by (auto simp add: send_def)
  have num: "numeric_indexes ?N ?req"
    by (simp add: numeric_indexes_def example_env_def example_request_def is_decimal_digit_def)
  have aw: "awaited ?N (startup ?N) = Fulfilled None"
    by (simp add: awaited_after_startup search_build_def example_env_def present_files_def
        dump_paths_def dump_promise_def readFile_promise_def then_promise_def Promise_all_def)
  have out2: "fst (app ?N ?req (startup ?N)) =
      Sent (send (setHeader (security_headers ?N new_response)
          ''Cache-Control'' ''no-cache, no-store'')
        ''Could not start backend. No data found.'')"
    using search_send_branches_status[where env = ?N and req = ?req and st = "startup ?N",
        OF rt nr]
      example_request_valid[of "''0''" "''10''"] num aw
    by simp
  have st2: "status (http_response ?N ?req (fst (app ?N ?req (startup ?N)))) = 200"
    using search_send_branches_status[where env = ?N and req = ?req and st = "startup ?N",
        OF rt nr]
      out2 nf
    by (auto simp add: send_def)
  show ?thesis
    using rt nr out1 st1 aw out2 st2 by (simp add: send_def)
qed

subsection \<open>Headers of the responses\<close>


















section \<open>Properties of the query engine\<close>

lemma length_insert_ranked: "length (insert_ranked before d xs) = Suc (length xs)"
  by (induction xs) simp_all

lemma length_foldr_insert_ranked:
  "length (foldr (insert_ranked before) ds []) = length ds"
  by (induction ds) (simp_all add: length_insert_ranked)

lemma length_ranked: "length (ranked cfg idx (tokenize q)) = totalMatches idx q"
  by (simp add: ranked_def totalMatches_def length_foldr_insert_ranked)

text \<open>
  C5. For a window with \<open>a \<le> b\<close> the search returns a sequence, not an error. Its length
  is \<open>min (b - a) (totalMatches - a)\<close> when \<open>a < totalMatches\<close> and it is empty when
  \<open>a \<ge> totalMatches\<close>. It is the slice of the ranked list from \<open>a\<close>; when \<open>b\<close> exceeds the
  number of matches it is all that exists from \<open>a\<close> on.
\<close>

theorem search_window_length:
  assumes "a \<le> b"
  shows "\<exists>rs. search cfg idx q a b = Inr rs
    \<and> length rs = (if a < totalMatches idx q then min (b - a) (totalMatches idx q - a) else 0)
    \<and> map fst rs = take (b - a) (drop a (ranked cfg idx (tokenize q)))
    \<and> (totalMatches idx q \<le> b \<longrightarrow> map fst rs = drop a (ranked cfg idx (tokenize q)))"
proof -
  let ?rs = "map (\<lambda>d. (d, score cfg idx (tokenize q) d))
      (take (b - a) (drop a (ranked cfg idx (tokenize q))))"
  have r: "search cfg idx q a b = Inr ?rs"
    using assms by (simp add: search_def)
  have l: "length ?rs =
      (if a < totalMatches idx q then min (b - a) (totalMatches idx q - a) else 0)"
    by (auto simp add: length_ranked)
  have m: "map fst ?rs = take (b - a) (drop a (ranked cfg idx (tokenize q)))"
    by (simp add: comp_def)
  have e: "totalMatches idx q \<le> b \<longrightarrow>
      take (b - a) (drop a (ranked cfg idx (tokenize q))) = drop a (ranked cfg idx (tokenize q))"
    by (simp add: length_ranked)
  have e': "totalMatches idx q \<le> b \<longrightarrow> map fst ?rs = drop a (ranked cfg idx (tokenize q))"
    using e by (simp only: m)
  show ?thesis
    using r l m e' by blast
qed

lemma tokenize_programming: "tokenize ''programming'' = [''programming'']"
  by (simp add: tokenize_def is_alnum_def lowercase_def)

lemma tokenize_fields:
  "tokenize ''CS'' = [''cs''] \<and> tokenize ''101'' = [''101'']
   \<and> tokenize ''Intro to Programming'' = [''intro'', ''to'', ''programming'']
   \<and> tokenize ''Jane Doe'' = [''jane'', ''doe'']"
  by code_simp

lemma example_matches:
  "matching (build example_config example_documents) [''programming''] = [hd example_documents]"
  by code_simp

theorem search_window_length_witness:
  "(0::nat) \<le> 10
   \<and> totalMatches (build example_config example_documents) ''programming'' = 1
   \<and> (\<exists>rs. search example_config (build example_config example_documents)
          ''programming'' 0 10 = Inr rs
        \<and> length rs = 1 \<and> map fst rs = [hd example_documents])
   \<and> (\<exists>rs. search example_config (build example_config example_documents)
          ''programming'' 5 10 = Inr rs \<and> length rs = 0)"
proof -
  let ?I = "build example_config example_documents"
  have t: "totalMatches ?I ''programming'' = 1"
    by (simp add: totalMatches_def tokenize_programming example_matches)
  have rk: "ranked example_config ?I (tokenize ''programming'') = [hd example_documents]"
    by (simp add: ranked_def tokenize_programming example_matches)
  have a: "\<exists>rs. search example_config ?I ''programming'' 0 10 = Inr rs
        \<and> length rs = 1 \<and> map fst rs = [hd example_documents]"
    using search_window_length[of 0 10 example_config ?I "''programming''"]
    by (simp add: t rk)
  have b: "\<exists>rs. search example_config ?I ''programming'' 5 10 = Inr rs \<and> length rs = 0"
    using search_window_length[of 5 10 example_config ?I "''programming''"]
    by (simp add: t)
  show ?thesis using t a b by simp
qed

section \<open>Properties of the tooltip debouncing\<close>

text \<open>The timers of the module: none, or the one that \<^verbatim>\<open>tooltipTimer\<close> names.\<close>

lemma run_append: "run (xs @ ys) st = run ys (run xs st)"
  by (induction xs arbitrary: st) simp_all

lemma debounce_one_timer:
  assumes "pending st = [] \<or> (\<exists>i d. pending st = [(i, d)] \<and> tooltipTimer st = Some i)"
  shows "debounceTooltipRebuild st =
     st\<lparr>pending := [(next_id st, clock st + 20)], next_id := Suc (next_id st),
        tooltipTimer := Some (next_id st)\<rparr>"
  using assms
  by (auto simp add: debounceTooltipRebuild_def setTimeout_def clearTimeout_def)

lemma step_one_timer:
  assumes "pending st = [] \<or> (\<exists>i d. pending st = [(i, d)] \<and> tooltipTimer st = Some i)"
  shows "pending (step e st) = []
     \<or> (\<exists>i d. pending (step e st) = [(i, d)] \<and> tooltipTimer (step e st) = Some i)"
proof (cases e)
  case Call
  then show ?thesis by (simp add: debounce_one_timer[OF assms])
next
  case (Elapse d)
  then show ?thesis using assms by simp
next
  case RunTimers
  show ?thesis
  proof (cases "pending st")
    case Nil
    then show ?thesis using RunTimers by simp
  next
    case (Cons t ts)
    then obtain i d where one: "pending st = [(i, d)]" and tt: "tooltipTimer st = Some i"
      using assms by auto
    show ?thesis
      using RunTimers one tt by (cases "is_due st (i, d)") simp_all
  qed
qed

lemma run_one_timer:
  "pending st = [] \<or> (\<exists>i d. pending st = [(i, d)] \<and> tooltipTimer st = Some i) \<Longrightarrow>
   pending (run evs st) = []
     \<or> (\<exists>i d. pending (run evs st) = [(i, d)] \<and> tooltipTimer (run evs st) = Some i)"
proof (induction evs arbitrary: st)
  case Nil
  then show ?case by simp
next
  case (Cons e evs)
  show ?case using Cons.IH[OF step_one_timer[OF Cons.prems, of e]] by simp
qed

lemma reachable_one_timer:
  "pending (run evs initial_timers) = []
     \<or> (\<exists>i d. pending (run evs initial_timers) = [(i, d)]
          \<and> tooltipTimer (run evs initial_timers) = Some i)"
  by (rule run_one_timer) (simp add: initial_timers_def)

lemma quiet_before_due:
  "pending st = [(i, due)] \<Longrightarrow> quiet evs \<Longrightarrow> clock st + elapsed evs < due \<Longrightarrow>
   run evs st = st\<lparr>clock := clock st + elapsed evs\<rparr>"
proof (induction evs arbitrary: st)
  case Nil
  then show ?case by simp
next
  case (Cons e evs)
  show ?case
  proof (cases e)
    case Call
    then show ?thesis using Cons.prems by simp
  next
    case (Elapse d)
    then show ?thesis
      using Cons.IH[of "st\<lparr>clock := clock st + d\<rparr>"] Cons.prems
      by (simp add: add.assoc)
  next
    case RunTimers
    have "step RunTimers st = st"
      using Cons.prems RunTimers by (simp add: is_due_def)
    then show ?thesis
      using Cons.IH[of st] Cons.prems RunTimers by simp
  qed
qed

lemma quiet_no_timer:
  "pending st = [] \<Longrightarrow> quiet evs \<Longrightarrow>
   rebuilds (run evs st) = rebuilds st \<and> pending (run evs st) = []"
proof (induction evs arbitrary: st)
  case Nil
  then show ?case by simp
next
  case (Cons e evs)
  show ?case
  proof (cases e)
    case Call
    then show ?thesis using Cons.prems by simp
  next
    case (Elapse d)
    then show ?thesis
      using Cons.IH[of "st\<lparr>clock := clock st + d\<rparr>"] Cons.prems by simp
  next
    case RunTimers
    then show ?thesis
      using Cons.IH[of "step RunTimers st"] Cons.prems by simp
  qed
qed

lemma quiet_fires_at_most_once:
  "pending st = [(i, due)] \<Longrightarrow> quiet evs \<Longrightarrow>
   rebuilds (run evs st) = rebuilds st
     \<or> (\<exists>c\<ge>due. rebuilds (run evs st) = rebuilds st @ [c])"
proof (induction evs arbitrary: st)
  case Nil
  then show ?case by simp
next
  case (Cons e evs)
  show ?case
  proof (cases e)
    case Call
    then show ?thesis using Cons.prems by simp
  next
    case (Elapse d)
    then show ?thesis
      using Cons.IH[of "st\<lparr>clock := clock st + d\<rparr>"] Cons.prems by simp
  next
    case RunTimers
    show ?thesis
    proof (cases "due \<le> clock st")
      case True
      have fired: "pending (step RunTimers st) = []
          \<and> rebuilds (step RunTimers st) = rebuilds st @ [clock st]"
        using Cons.prems True by (simp add: is_due_def)
      have "rebuilds (run evs (step RunTimers st)) = rebuilds st @ [clock st]"
        using quiet_no_timer[of "step RunTimers st" evs] fired Cons.prems RunTimers by simp
      then show ?thesis using True RunTimers by auto
    next
      case False
      have "step RunTimers st = st"
        using Cons.prems False by (simp add: is_due_def)
      then show ?thesis
        using Cons.IH[of st] Cons.prems RunTimers by simp
    qed
  qed
qed

lemma fires_when_due:
  assumes "pending st = [(i, clock st + 20)]" and "quiet evs"
  shows "rebuilds (run (Elapse 20 # RunTimers # evs) st) = rebuilds st @ [clock st + 20]"
proof -
  let ?st2 = "step RunTimers (step (Elapse 20) st)"
  have fired: "pending ?st2 = [] \<and> rebuilds ?st2 = rebuilds st @ [clock st + 20]"
    using assms(1) by (simp add: is_due_def)
  show ?thesis
    using quiet_no_timer[of ?st2 evs] fired assms(2) by simp
qed

lemma burst_keeps_quiet:
  assumes "\<forall>seg\<in>set segs. quiet seg \<and> elapsed seg < 20"
    and "pending st = [] \<or> (\<exists>i d. pending st = [(i, d)] \<and> tooltipTimer st = Some i)"
  shows "rebuilds (run (burst segs) st) = rebuilds st
    \<and> (\<exists>i. pending (run (burst segs) st) = [(i, clock (run (burst segs) st) + 20)])"
  using assms
proof (induction segs arbitrary: st)
  case Nil
  then show ?case
    by (simp add: burst_def debounce_one_timer)
next
  case (Cons seg segs)
  let ?st1 = "debounceTooltipRebuild st"
  have st1: "?st1 = st\<lparr>pending := [(next_id st, clock st + 20)], next_id := Suc (next_id st),
        tooltipTimer := Some (next_id st)\<rparr>"
    by (rule debounce_one_timer[OF Cons.prems(2)])
  have seg: "quiet seg \<and> elapsed seg < 20"
    using Cons.prems(1) by simp
  have st2: "run seg ?st1 = ?st1\<lparr>clock := clock ?st1 + elapsed seg\<rparr>"
    using quiet_before_due[of ?st1 "next_id st" "clock st + 20" seg] seg
    by (simp add: st1)
  have inv2: "pending (run seg ?st1) = []
      \<or> (\<exists>i d. pending (run seg ?st1) = [(i, d)] \<and> tooltipTimer (run seg ?st1) = Some i)"
    by (simp add: st2) (simp add: st1)
  have split: "run (burst (seg # segs)) st = run (burst segs) (run seg ?st1)"
    by (simp add: burst_def run_append)
  have reb: "rebuilds (run seg ?st1) = rebuilds st"
    by (simp add: st2) (simp add: st1)
  show ?case
    using Cons.IH[OF _ inv2] Cons.prems(1) by (simp add: split reb)
qed

text \<open>
  C10. In every state the page can reach, at most one rebuild is pending, and a call of
  \<^verbatim>\<open>debounceTooltipRebuild\<close> leaves exactly one timer pending, the new one, due 20 ms
  after the call. In a burst of calls, each less than 20 ms after the one before,
  \<^verbatim>\<open>ReactTooltip.rebuild\<close> does not run; when 20 ms have passed since the last call and the
  timers run, it runs once, at the time of the last call plus 20 ms, and not again while no
  further call is made. However late the event loop runs the timers, the rebuild runs at
  most once after the burst and never earlier than 20 ms after its last call.
\<close>

theorem debounce_rebuilds_once:
  assumes "\<forall>seg\<in>set segs. quiet seg \<and> elapsed seg < 20" and "quiet tail"
  shows "length (pending (run evs initial_timers)) \<le> 1
    \<and> pending (debounceTooltipRebuild (run evs initial_timers)) =
        [(next_id (run evs initial_timers), clock (run evs initial_timers) + 20)]
    \<and> tooltipTimer (debounceTooltipRebuild (run evs initial_timers)) =
        Some (next_id (run evs initial_timers))
    \<and> rebuilds (run (evs @ burst segs) initial_timers) = rebuilds (run evs initial_timers)
    \<and> rebuilds (run (evs @ burst segs @ Elapse 20 # RunTimers # tail) initial_timers) =
        rebuilds (run evs initial_timers) @ [clock (run (evs @ burst segs) initial_timers) + 20]
    \<and> (rebuilds (run (evs @ burst segs @ tail) initial_timers) =
          rebuilds (run evs initial_timers)
        \<or> (\<exists>c\<ge>clock (run (evs @ burst segs) initial_timers) + 20.
             rebuilds (run (evs @ burst segs @ tail) initial_timers) =
               rebuilds (run evs initial_timers) @ [c]))"
proof -
  define st0 where "st0 = run evs initial_timers"
  define st1 where "st1 = run (burst segs) st0"
  have inv0: "pending st0 = [] \<or> (\<exists>i d. pending st0 = [(i, d)] \<and> tooltipTimer st0 = Some i)"
    unfolding st0_def by (rule reachable_one_timer)
  have one: "length (pending st0) \<le> 1"
    using inv0 by auto
  have call: "pending (debounceTooltipRebuild st0) = [(next_id st0, clock st0 + 20)]
      \<and> tooltipTimer (debounceTooltipRebuild st0) = Some (next_id st0)"
    by (simp add: debounce_one_timer[OF inv0])
  have b: "rebuilds st1 = rebuilds st0 \<and> (\<exists>i. pending st1 = [(i, clock st1 + 20)])"
    unfolding st1_def by (rule burst_keeps_quiet[OF assms(1) inv0])
  then obtain i where p1: "pending st1 = [(i, clock st1 + 20)]"
    by blast
  have fire: "rebuilds (run (Elapse 20 # RunTimers # tail) st1) = rebuilds st0 @ [clock st1 + 20]"
    using fires_when_due[OF p1 assms(2)] b by simp
  have late: "rebuilds (run tail st1) = rebuilds st0
      \<or> (\<exists>c\<ge>clock st1 + 20. rebuilds (run tail st1) = rebuilds st0 @ [c])"
    using quiet_fires_at_most_once[OF p1 assms(2)] b by simp
  show ?thesis
    using one call b fire late
    by (simp add: run_append st0_def[symmetric] st1_def[symmetric])
qed

theorem debounce_rebuilds_once_witness:
  "quiet [Elapse 5] \<and> elapsed [Elapse 5] < 20
   \<and> quiet [Elapse 10, RunTimers] \<and> elapsed [Elapse 10, RunTimers] < 20
   \<and> quiet [Elapse 100, RunTimers]
   \<and> rebuilds (run [Call, Elapse 50, RunTimers] initial_timers) = [50]
   \<and> clock (run ([Call, Elapse 50, RunTimers] @ burst [[Elapse 5], [Elapse 10, RunTimers]])
        initial_timers) = 65
   \<and> rebuilds (run ([Call, Elapse 50, RunTimers] @ burst [[Elapse 5], [Elapse 10, RunTimers]]
        @ Elapse 20 # RunTimers # [Elapse 100, RunTimers]) initial_timers) = [50, 85]"
proof -
  have h: "\<forall>seg\<in>set [[Elapse 5], [Elapse 10, RunTimers]]. quiet seg \<and> elapsed seg < 20"
    by simp
  have q: "quiet [Elapse 100, RunTimers]"
    by simp
  have r0: "rebuilds (run [Call, Elapse 50, RunTimers] initial_timers) = [50]"
    by (simp add: initial_timers_def debounceTooltipRebuild_def setTimeout_def
        clearTimeout_def is_due_def)
  have c1: "clock (run ([Call, Elapse 50, RunTimers] @ burst [[Elapse 5], [Elapse 10, RunTimers]])
        initial_timers) = 65"
    by (simp add: burst_def initial_timers_def debounceTooltipRebuild_def setTimeout_def
        clearTimeout_def is_due_def)
  show ?thesis
    using debounce_rebuilds_once[OF h q, of "[Call, Elapse 50, RunTimers]"] h q r0 c1
    by simp
qed

end
